theory Spec2Isabelle
  imports Main "HOL-Library.Word" "HOL-Library.Signed_Division"
begin

section \<open>The dysk control-plane client (pkg/client/client.go)\<close>

text \<open>
  A shallow embedding of the Go client of the dysk block-device driver. A Go \<open>string\<close>
  and a \<open>[]byte\<close> are both sequences of bytes and are modelled as \<^typ>\<open>string\<close>
  (a list of 8-bit characters). Go's \<open>uint64\<close> is \<^typ>\<open>64 word\<close>; Go's \<open>int\<close> and
  \<open>int64\<close> are \<^typ>\<open>64 word\<close> read with \<^const>\<open>sint\<close> (the driver is a 64-bit Linux
  kernel module). A run-time panic and a returned \<open>error\<close> are values of the type
  \<open>failure\<close>.
\<close>

subsection \<open>Failures\<close>

datatype panic =
    IndexOutOfRange      \<comment> \<open>\<open>xs[i]\<close> with \<open>i\<close> outside \<open>0..len(xs)-1\<close>\<close>
  | SliceOutOfRange      \<comment> \<open>\<open>s[:i]\<close> or \<open>s[i:]\<close> with \<open>i\<close> outside \<open>0..len(s)\<close>\<close>
  | MakeLenOutOfRange    \<comment> \<open>\<open>make([]byte, n)\<close> with negative \<open>n\<close>\<close>

datatype error =
    InvalidType          \<comment> \<open>"Invalid type. Must be R or RW"\<close>
  | InvalidNameLength    \<comment> \<open>"Invalid name. Only max of(32) chars"\<close>
  | InvalidNameChars     \<comment> \<open>"Invalid name. Must not contain \ / ."\<close>
  | InvalidSectorCount   \<comment> \<open>"Invalid Sector count."\<close>
  | InvalidAccountName   \<comment> \<open>"Invalid Account name. Must be <= than 256"\<close>
  | InvalidAccountKey    \<comment> \<open>"Invalid AccountKey. Must be <= 64"\<close>
  | InvalidPath          \<comment> \<open>"Invalid path. Must be <= 1024"\<close>
  | InvalidHost          \<comment> \<open>"Invalid host. Must be <= 512"\<close>
  | InvalidLeaseId       \<comment> \<open>"Invalid Lease Id. Must be <= 32"\<close>
  | LookupFailed string  \<comment> \<open>"Failed to lookup ip for host:%s"\<close>
  | ContainerMissing string  \<comment> \<open>"Container at %s does not exist"\<close>
  | BlobMissing string   \<comment> \<open>"Blob at %s does not exist"\<close>
  | NotPageBlob          \<comment> \<open>"This blob is not a page blob"\<close>
  | DriverMessage string \<comment> \<open>\<open>fmt.Errorf(res.response)\<close>: the driver's payload\<close>
  | Errno nat            \<comment> \<open>a non-zero \<open>syscall.Errno\<close>\<close>
  | SyntaxError string   \<comment> \<open>\<open>strconv.ErrSyntax\<close> for the given text\<close>
  | RangeError string    \<comment> \<open>\<open>strconv.ErrRange\<close> for the given text\<close>
  | External nat         \<comment> \<open>an error of the object store, the resolver or the file system\<close>

datatype failure = Panic panic | Error error

subsection \<open>Bytes, slices and the \<open>strings\<close> package\<close>

abbreviation NL :: char where "NL \<equiv> CHR 0x0A"
abbreviation NUL :: char where "NUL \<equiv> CHR 0x00"

text \<open>\<open>strings.Index(s, "\n")\<close>: the index of the first occurrence, or \<open>-1\<close>.\<close>

fun strings_Index :: "string \<Rightarrow> char \<Rightarrow> int" where
  "strings_Index [] c = -1"
| "strings_Index (x # xs) c =
     (if x = c then 0
      else (let i = strings_Index xs c in if i < 0 then -1 else i + 1))"

text \<open>The slice expressions \<open>s[:i]\<close> and \<open>s[i:]\<close>, which panic outside \<open>0..len(s)\<close>.\<close>

definition slice_to :: "string \<Rightarrow> int \<Rightarrow> failure + string" where
  "slice_to s i =
     (if 0 \<le> i \<and> i \<le> int (length s) then Inr (take (nat i) s)
      else Inl (Panic SliceOutOfRange))"

definition slice_from :: "string \<Rightarrow> int \<Rightarrow> failure + string" where
  "slice_from s i =
     (if 0 \<le> i \<and> i \<le> int (length s) then Inr (drop (nat i) s)
      else Inl (Panic SliceOutOfRange))"

subsection \<open>The command buffer\<close>

definition IOCTL_IN_OUT_MAX :: int where
  "IOCTL_IN_OUT_MAX = 2048"

text \<open>
  \<open>bufferize\<close>: \<open>make([]byte, IOCTL_IN_OUT_MAX-len(messageBytes))\<close> panics when the
  length is negative; otherwise the message is followed by that many zero bytes.
\<close>

definition bufferize :: "string \<Rightarrow> failure + string" where
  "bufferize s =
     (let messageBytes = s;
          n = IOCTL_IN_OUT_MAX - int (length messageBytes)
      in if n < 0 then Inl (Panic MakeLenOutOfRange)
         else Inr (messageBytes @ replicate (nat n) NUL))"

subsection \<open>The response parser\<close>

record moduleResponse =
  is_error :: bool
  response :: string

definition parseResponse :: "string \<Rightarrow> failure + moduleResponse" where
  "parseResponse bytes =
     (let s = bytes;
          firstlinebreak = strings_Index s NL
      in case slice_to s firstlinebreak of
           Inl f \<Rightarrow> Inl f
         | Inr status \<Rightarrow>
             (case slice_from s (firstlinebreak + 1) of
                Inl f \<Rightarrow> Inl f
              | Inr rest \<Rightarrow> Inr \<lparr>is_error = (status = ''ERR''), response = rest\<rparr>))"

subsection \<open>The \<open>strings\<close> and \<open>strconv\<close> functions the codec uses\<close>

text \<open>\<open>strings.Split(s, "\n")\<close>: the segments between separators; never empty.\<close>

fun strings_Split :: "string \<Rightarrow> char \<Rightarrow> string list" where
  "strings_Split [] c = [[]]"
| "strings_Split (x # xs) c =
     (if x = c then [] # strings_Split xs c
      else (case strings_Split xs c of
              [] \<Rightarrow> [[x]]
            | seg # segs \<Rightarrow> (x # seg) # segs))"

text \<open>The index expression \<open>xs[i]\<close>, which panics outside \<open>0..len(xs)-1\<close>.\<close>

definition index :: "'a list \<Rightarrow> nat \<Rightarrow> failure + 'a" where
  "index xs i = (if i < length xs then Inr (xs ! i) else Inl (Panic IndexOutOfRange))"

definition and_then :: "failure + 'a \<Rightarrow> ('a \<Rightarrow> failure + 'b) \<Rightarrow> failure + 'b" where
  "and_then m f = (case m of Inl e \<Rightarrow> Inl e | Inr v \<Rightarrow> f v)"

text \<open>
  The verb \<open>%d\<close> of \<open>fmt.Sprintf\<close> on an integer: decimal digits, most significant
  first, with a leading minus sign for a negative value.
\<close>

fun dec_digits :: "nat \<Rightarrow> string" where
  "dec_digits n =
     (if n < 10 then [char_of (48 + n)]
      else dec_digits (n div 10) @ [char_of (48 + n mod 10)])"

declare dec_digits.simps [simp del]

definition sprintf_d :: "int \<Rightarrow> string" where
  "sprintf_d i = (if i < 0 then CHR ''-'' # dec_digits (nat (- i)) else dec_digits (nat i))"

text \<open>
  \<open>strconv.ParseUint(s, 10, 64)\<close>. A Go call returns the pair of a value and an error;
  the callers here sometimes drop the error and keep the value, so the model returns both.
  The loop stops at the first byte that is not a decimal digit (syntax error, value 0) and
  at the first overflow (range error, value \<open>2^64 - 1\<close>).
\<close>

definition is_digit :: "char \<Rightarrow> bool" where
  "is_digit c = (48 \<le> (of_char c :: nat) \<and> (of_char c :: nat) \<le> 57)"

fun ParseUint_loop :: "string \<Rightarrow> string \<Rightarrow> nat \<Rightarrow> nat \<times> error option" where
  "ParseUint_loop s0 [] n = (n, None)"
| "ParseUint_loop s0 (c # cs) n =
     (if \<not> is_digit c then (0, Some (SyntaxError s0))
      else if n \<ge> (2 ^ 64 - 1) div 10 + 1 then (2 ^ 64 - 1, Some (RangeError s0))
      else (let n1 = n * 10 + (of_char c - 48)
            in if n1 > 2 ^ 64 - 1 then (2 ^ 64 - 1, Some (RangeError s0))
               else ParseUint_loop s0 cs n1))"

definition ParseUint :: "string \<Rightarrow> 64 word \<times> error option" where
  "ParseUint s =
     (if s = [] then (0, Some (SyntaxError s))
      else (let (n, err) = ParseUint_loop s s 0 in (of_nat n, err)))"

text \<open>
  \<open>strconv.ParseInt(s, 10, 64)\<close>: an optional sign, then \<open>ParseUint\<close> on the rest; a
  magnitude outside the signed range gives the nearest bound and a range error.
\<close>

definition ParseInt :: "string \<Rightarrow> 64 word \<times> error option" where
  "ParseInt s0 =
     (if s0 = [] then (0, Some (SyntaxError s0))
      else
        (let neg = (hd s0 = CHR ''-'');
             s = (if hd s0 = CHR ''+'' \<or> hd s0 = CHR ''-'' then tl s0 else s0);
             (un, err) = (if s = [] then (0, Some (SyntaxError s))
                          else ParseUint_loop s s 0)
         in case err of
              Some (SyntaxError _) \<Rightarrow> (0, Some (SyntaxError s0))
            | _ \<Rightarrow>
               (if \<not> neg \<and> un \<ge> 2 ^ 63 then (word_of_int (2 ^ 63 - 1), Some (RangeError s0))
                else if neg \<and> un > 2 ^ 63 then (word_of_int (- (2 ^ 63)), Some (RangeError s0))
                else (if neg then - of_nat un else of_nat un, None))))"

subsection \<open>The disk descriptor and the wire codec\<close>

text \<open>
  Modelled from the spec: the declarations of \<open>type Dysk struct\<close>, \<open>type DyskType\<close>
  and the constants \<open>ReadOnly\<close> and \<open>ReadWrite\<close> are in a file of the package that is
  not under src/. The fields are those \<open>client.go\<close> reads and writes, with the types
  it uses them at; the two type tags are the \<open>R\<close> and \<open>RW\<close> of the validator's message.
\<close>

type_synonym DyskType = string

definition ReadOnly :: DyskType where
  "ReadOnly = ''R''"

definition ReadWrite :: DyskType where
  "ReadWrite = ''RW''"

record Dysk =
  Type :: DyskType
  Name :: string
  sectorCount :: "64 word"
  AccountName :: string
  AccountKey :: string
  Path :: string
  host :: string
  ip :: string
  LeaseId :: string
  Major :: "64 word"
  Minor :: "64 word"
  Vhd :: bool
  SizeGB :: "64 word"

text \<open>
  \<open>string2dysk\<close> reads the segments in the order of the source: 2, 9, 10, 11, and then
  the others, which are in range once segment 11 is.
\<close>

definition string2dysk :: "string \<Rightarrow> failure + Dysk" where
  "string2dysk asstring =
     (let split = strings_Split asstring NL in
      and_then (index split 2) (\<lambda>s2.
        let sc = fst (ParseUint s2) in
        and_then (index split 9) (\<lambda>s9.
          case ParseInt s9 of
            (_, Some err) \<Rightarrow> Inl (Error err)
          | (major, None) \<Rightarrow>
              and_then (index split 10) (\<lambda>s10.
                case ParseInt s10 of
                  (_, Some err) \<Rightarrow> Inl (Error err)
                | (minor, None) \<Rightarrow>
                    and_then (index split 11) (\<lambda>s11.
                      let is_vhd = fst (ParseInt s11) in
                      Inr \<lparr>Type = split ! 0, Name = split ! 1, sectorCount = sc,
                           AccountName = split ! 3, AccountKey = split ! 4,
                           Path = split ! 5, host = split ! 6, ip = split ! 7,
                           LeaseId = split ! 8, Major = major, Minor = minor,
                           Vhd = (is_vhd = 1), SizeGB = 0\<rparr>)))))"

definition dysk2string :: "Dysk \<Rightarrow> string" where
  "dysk2string d =
     (let is_vhd = (if Vhd d then 1 else 0 :: int) in
      Type d @ [NL] @ Name d @ [NL] @ sprintf_d (uint (sectorCount d)) @ [NL]
      @ AccountName d @ [NL] @ AccountKey d @ [NL] @ Path d @ [NL] @ host d @ [NL]
      @ ip d @ [NL] @ LeaseId d @ [NL] @ sprintf_d is_vhd @ [NL])"

subsection \<open>The outside world: driver, object store, resolver\<close>

text \<open>
  Every call that leaves the process is recorded as an event, in order. What the outside
  answers is a parameter of the model: an answer may depend on everything that happened
  before, so each answer is a function of the events so far, the call itself last.
\<close>

datatype event =
    OpenDevice                  \<comment> \<open>\<open>os.Open("/dev/dysk")\<close>\<close>
  | CloseDevice                 \<comment> \<open>\<open>c.f.Close()\<close>\<close>
  | Ioctl nat string            \<comment> \<open>\<open>ioctl(fd, code, &buffer[0])\<close>\<close>
  | CreateIfNotExists string    \<comment> \<open>container\<close>
  | PutPageBlob string string "64 word"  \<comment> \<open>container, blob, content length\<close>
  | WriteRange string string "64 word" "64 word" string
      \<comment> \<open>container, blob, first byte, last byte, data\<close>
  | AcquireLease string string  \<comment> \<open>container, blob\<close>
  | ContainerExists string      \<comment> \<open>container\<close>
  | BlobExists string string    \<comment> \<open>container, blob\<close>
  | GetProperties string string string  \<comment> \<open>container, blob, lease id\<close>
  | SetMetadata string string string    \<comment> \<open>container, blob, lease id\<close>
  | LookupIP string             \<comment> \<open>host\<close>

record world =
  VHD_HEADER_SIZE :: nat
    \<comment> \<open>the constant \<open>vhd.VHD_HEADER_SIZE\<close> of the go-vhd package\<close>
  CreateFixedHeader :: "64 word \<Rightarrow> error + string"
    \<comment> \<open>\<open>vhd.CreateFixedHeader\<close> and \<open>binary.Write\<close>: the header's bytes, or the write's error\<close>
  path_Dir :: "string \<Rightarrow> string"
  path_Base :: "string \<Rightarrow> string"
  base64_DecodeString :: "string \<Rightarrow> error option"
    \<comment> \<open>the error of \<open>base64.StdEncoding.DecodeString\<close>, if any\<close>
  NewBasicClient :: "string \<Rightarrow> string \<Rightarrow> error option"
  reply_unit :: "event list \<Rightarrow> error option"
    \<comment> \<open>calls that return only an error\<close>
  reply_bool :: "event list \<Rightarrow> error + bool"
    \<comment> \<open>the two \<open>Exists\<close> calls\<close>
  reply_props :: "event list \<Rightarrow> error + (64 word \<times> bool)"
    \<comment> \<open>\<open>GetProperties\<close>: content length, and whether the blob type is the page type\<close>
  reply_lease :: "event list \<Rightarrow> error + string"
  reply_ioctl :: "event list \<Rightarrow> nat \<times> string"
    \<comment> \<open>the errno of the system call and the buffer as the driver left it\<close>
  reply_addrs :: "event list \<Rightarrow> error + string list"

record dyskclient =
  storageAccountName :: string
  storageAccountKey :: string

definition IOCTLMOUNTDYSK :: nat where "IOCTLMOUNTDYSK = 9901"
definition IOCTLUNMOUNTDYSK :: nat where "IOCTLUNMOUNTDYSK = 9902"
definition IOCTGETDYSK :: nat where "IOCTGETDYSK = 9903"
definition IOCTLISTDYYSKS :: nat where "IOCTLISTDYYSKS = 9904"

subsection \<open>The provisioner\<close>

text \<open>
  \<open>CreatePageBlob\<close>. The argument \<open>is_vhd\<close> is not read by the body. A slice may reach
  up to its capacity; the model takes the capacity of \<open>headerBytes\<close> to be its length.
\<close>

definition CreatePageBlob ::
  "world \<Rightarrow> dyskclient \<Rightarrow> 64 word \<Rightarrow> string \<Rightarrow> string \<Rightarrow> bool \<Rightarrow> event list
     \<Rightarrow> event list \<times> (failure + string)" where
  "CreatePageBlob w c sizeGB container pageBlobName is_vhd tr =
     (case NewBasicClient w (storageAccountName c) (storageAccountKey c) of
        Some err \<Rightarrow> (tr, Inl (Error err))
      | None \<Rightarrow>
     (let sizeBytes = sizeGB * 1024 * 1024 * 1024;
          tr1 = tr @ [CreateIfNotExists container]
      in case reply_unit w tr1 of
           Some err \<Rightarrow> (tr1, Inl (Error err))
         | None \<Rightarrow>
     (let tr2 = tr1 @ [PutPageBlob container pageBlobName sizeBytes]
      in case reply_unit w tr2 of
           Some err \<Rightarrow> (tr2, Inl (Error err))
         | None \<Rightarrow>
     (case CreateFixedHeader w sizeBytes of
        Inl err \<Rightarrow> (tr2, Inl (Error err))
      | Inr headerBytes \<Rightarrow>
     (let Start = sizeBytes - of_nat (length headerBytes);
          End = sizeBytes - 1
      in case slice_to headerBytes (int (VHD_HEADER_SIZE w)) of
           Inl f \<Rightarrow> (tr2, Inl f)
         | Inr header \<Rightarrow>
     (let tr3 = tr2 @ [WriteRange container pageBlobName Start End header]
      in case reply_unit w tr3 of
           Some err \<Rightarrow> (tr3, Inl (Error err))
         | None \<Rightarrow>
     (let tr4 = tr3 @ [AcquireLease container pageBlobName]
      in case reply_lease w tr4 of
           Inl err \<Rightarrow> (tr4, Inl (Error err))
         | Inr leaseId \<Rightarrow> (tr4, Inr leaseId))))))))"

subsection \<open>The validator\<close>

text \<open>
  A function that changes the descriptor it is given returns the descriptor as it leaves
  it, together with the events and with the failure, if any.
\<close>

definition validateLease ::
  "world \<Rightarrow> Dysk \<Rightarrow> event list \<Rightarrow> event list \<times> Dysk \<times> failure option" where
  "validateLease w d tr =
     (case slice_from (path_Dir w (Path d)) 1 of
        Inl f \<Rightarrow> (tr, d, Some f)
      | Inr containerPath \<Rightarrow>
     (let tr1 = tr @ [ContainerExists containerPath]
      in case reply_bool w tr1 of
           Inl err \<Rightarrow> (tr1, d, Some (Error err))
         | Inr False \<Rightarrow> (tr1, d, Some (Error (ContainerMissing (Path d))))
         | Inr True \<Rightarrow>
     (let pageBlobName = path_Base w (Path d);
          tr2 = tr1 @ [BlobExists containerPath pageBlobName]
      in case reply_bool w tr2 of
           Inl err \<Rightarrow> (tr2, d, Some (Error err))
         | Inr False \<Rightarrow> (tr2, d, Some (Error (BlobMissing (Path d))))
         | Inr True \<Rightarrow>
     (let tr3 = tr2 @ [GetProperties containerPath pageBlobName (LeaseId d)]
      in case reply_props w tr3 of
           Inl err \<Rightarrow> (tr3, d, Some (Error err))
         | Inr (contentLength, is_page) \<Rightarrow>
             if \<not> is_page then (tr3, d, Some (Error NotPageBlob))
             else if ReadOnly = Type d then (tr3, d, None)
             else
               (let tr4 = tr3 @ [SetMetadata containerPath pageBlobName (LeaseId d)]
                in case reply_unit w tr4 of
                     Some err \<Rightarrow> (tr4, d, Some (Error err))
                   | None \<Rightarrow> (tr4, d, None))))))"

text \<open>
  \<open>validateDysk\<close>. After the length check of the account key the source decodes the key
  as base64 and, on an error, builds an error value with \<open>fmt.Errorf\<close> that it neither
  returns nor stores; the binding \<open>dropped\<close> is that value.
\<close>

definition validateDysk ::
  "world \<Rightarrow> Dysk \<Rightarrow> event list \<Rightarrow> event list \<times> Dysk \<times> failure option" where
  "validateDysk w d tr =
     (if length (Type d) = 0 \<or> (ReadOnly \<noteq> Type d \<and> ReadWrite \<noteq> Type d)
      then (tr, d, Some (Error InvalidType))
      else if length (Name d) = 0 \<or> 32 < length (Name d)
      then (tr, d, Some (Error InvalidNameLength))
      else if CHR ''/'' \<in> set (Name d) \<or> CHR 0x5C \<in> set (Name d) \<or> CHR ''.'' \<in> set (Name d)
      then (tr, d, Some (Error InvalidNameChars))
      else if sectorCount d = 0
      then (tr, d, Some (Error InvalidSectorCount))
      else if length (AccountName d) = 0 \<or> 256 < length (AccountName d)
      then (tr, d, Some (Error InvalidAccountName))
      else if length (AccountKey d) = 0 \<or> 128 < length (AccountKey d)
      then (tr, d, Some (Error InvalidAccountKey))
      else
        (let dropped = base64_DecodeString w (AccountKey d)
         in if length (Path d) = 0 \<or> 1024 < length (Path d)
            then (tr, d, Some (Error InvalidPath))
            else if 0 < length (host d) \<and> 512 < length (host d)
            then (tr, d, Some (Error InvalidHost))
            else
              (let d1 = d\<lparr>host := AccountName d @ ''.blob.core.windows.net''\<rparr>
               in if length (LeaseId d1) = 0 \<or> 64 < length (LeaseId d1)
                  then (tr, d1, Some (Error InvalidLeaseId))
                  else
                    (let tr1 = tr @ [LookupIP (host d1)]
                     in case reply_addrs w tr1 of
                          Inl err \<Rightarrow> (tr1, d1, Some (Error (LookupFailed (host d1))))
                        | Inr addr \<Rightarrow>
                            (case index addr 0 of
                               Inl f \<Rightarrow> (tr1, d1, Some f)
                             | Inr a \<Rightarrow> validateLease w (d1\<lparr>ip := a\<rparr>) tr1)))))"

subsection \<open>Sizes\<close>

text \<open>
  \<open>set_pageblob_size\<close> drops the result of \<open>ensureBlobService\<close> and asks the store for
  the blob's properties; \<open>ContentLength\<close> is an \<open>int64\<close> and its division by \<open>2^30\<close>
  truncates towards zero.
\<close>

definition set_pageblob_size ::
  "world \<Rightarrow> dyskclient \<Rightarrow> Dysk \<Rightarrow> event list \<Rightarrow> event list \<times> Dysk \<times> failure option" where
  "set_pageblob_size w c d tr =
     (let dropped = NewBasicClient w (storageAccountName c) (storageAccountKey c)
      in case slice_from (path_Dir w (Path d)) 1 of
           Inl f \<Rightarrow> (tr, d, Some f)
         | Inr containerPath \<Rightarrow>
             (let pageBlobName = path_Base w (Path d);
                  tr1 = tr @ [GetProperties containerPath pageBlobName (LeaseId d)]
              in case reply_props w tr1 of
                   Inl err \<Rightarrow> (tr1, d, Some (Error err))
                 | Inr (contentLength, is_page) \<Rightarrow>
                     (tr1,
                      d\<lparr>SizeGB := word_of_int (sint contentLength sdiv (1024 * 1024 * 1024))\<rparr>,
                      None)))"

text \<open>
  The arithmetic of \<open>pre_mount\<close>, lines 274 to 278 of the source: \<open>byteSize\<close> is an
  \<open>int\<close>, so the product and the difference wrap and the division by 512 truncates
  towards zero; the quotient is converted to \<open>uint64\<close>.
\<close>

definition pre_mount_sectors :: "world \<Rightarrow> Dysk \<Rightarrow> Dysk" where
  "pre_mount_sectors w d =
     (let byteSize = SizeGB d * (1024 * 1024 * 1024);
          byteSize = (if Vhd d then byteSize - of_nat (VHD_HEADER_SIZE w) else byteSize)
      in d\<lparr>sectorCount := word_of_int (sint byteSize sdiv 512)\<rparr>)"

text \<open>
  \<open>pre_mount\<close>: the error of \<open>set_pageblob_size\<close> is dropped (a panic is not), and the
  validator runs last.
\<close>

definition pre_mount ::
  "world \<Rightarrow> dyskclient \<Rightarrow> Dysk \<Rightarrow> event list \<Rightarrow> event list \<times> Dysk \<times> failure option" where
  "pre_mount w c d tr =
     (let d1 = d\<lparr>AccountName := storageAccountName c, AccountKey := storageAccountKey c\<rparr>
      in case set_pageblob_size w c d1 tr of
           (tr1, d2, Some (Panic p)) \<Rightarrow> (tr1, d2, Some (Panic p))
         | (tr1, d2, _) \<Rightarrow> validateDysk w (pre_mount_sectors w d2) tr1)"

text \<open>\<open>post_get\<close>: unsigned arithmetic on \<open>uint64\<close>, then the conversion to \<open>int\<close>.\<close>

definition post_get :: "world \<Rightarrow> Dysk \<Rightarrow> Dysk" where
  "post_get w d =
     (let byteSize = sectorCount d * 512;
          byteSize = (if Vhd d then byteSize + of_nat (VHD_HEADER_SIZE w) else byteSize)
      in d\<lparr>SizeGB := byteSize div (1024 * 1024 * 1024)\<rparr>)"

subsection \<open>The facade\<close>

definition get :: "world \<Rightarrow> string \<Rightarrow> event list \<Rightarrow> event list \<times> (failure + Dysk)" where
  "get w deviceName tr =
     (let newName = deviceName @ [NL, NUL]
      in case bufferize newName of
           Inl f \<Rightarrow> (tr, Inl f)
         | Inr buffer \<Rightarrow>
             (let tr1 = tr @ [Ioctl IOCTGETDYSK buffer];
                  (e, buffer) = reply_ioctl w tr1
              in if e \<noteq> 0 then (tr1, Inl (Error (Errno e)))
                 else case parseResponse buffer of
                        Inl f \<Rightarrow> (tr1, Inl f)
                      | Inr res \<Rightarrow>
                          if is_error res then (tr1, Inl (Error (DriverMessage (response res))))
                          else (tr1, string2dysk (response res))))"

text \<open>
  \<open>Mount\<close>: the device file is opened first; the deferred \<open>closeDeviceFile\<close> runs on
  every way out of the rest, so \<open>Mount_opened\<close> is the body after the \<open>defer\<close>.
\<close>

definition Mount_opened ::
  "world \<Rightarrow> dyskclient \<Rightarrow> Dysk \<Rightarrow> event list \<Rightarrow> event list \<times> Dysk \<times> failure option" where
  "Mount_opened w c d tr =
     (case pre_mount w c d tr of
        (tr1, d1, Some f) \<Rightarrow> (tr1, d1, Some f)
      | (tr1, d1, None) \<Rightarrow>
          (let as_string = dysk2string d1
           in case bufferize as_string of
                Inl f \<Rightarrow> (tr1, d1, Some f)
              | Inr buffer \<Rightarrow>
                  (let tr2 = tr1 @ [Ioctl IOCTLMOUNTDYSK buffer];
                       (e, buffer) = reply_ioctl w tr2
                   in if e \<noteq> 0 then (tr2, d1, Some (Error (Errno e)))
                      else case parseResponse buffer of
                             Inl f \<Rightarrow> (tr2, d1, Some f)
                           | Inr res \<Rightarrow>
                               if is_error res
                               then (tr2, d1, Some (Error (DriverMessage (response res))))
                               else case string2dysk (response res) of
                                      Inl f \<Rightarrow> (tr2, d1, Some f)
                                    | Inr newdysk \<Rightarrow>
                                        (tr2,
                                         d1\<lparr>Major := Major newdysk, Minor := Minor newdysk\<rparr>,
                                         None))))"

definition Mount ::
  "world \<Rightarrow> dyskclient \<Rightarrow> Dysk \<Rightarrow> event list \<Rightarrow> event list \<times> Dysk \<times> failure option" where
  "Mount w c d tr =
     (let tr0 = tr @ [OpenDevice]
      in case reply_unit w tr0 of
           Some err \<Rightarrow> (tr0, d, Some (Error err))
         | None \<Rightarrow>
             (case Mount_opened w c d tr0 of
                (tr1, d1, r) \<Rightarrow> (tr1 @ [CloseDevice], d1, r)))"

text \<open>
  The loop of \<open>List\<close>: \<open>for idx, name := range splitNames\<close>, left by \<open>break\<close> at the
  last index and by \<open>return\<close> at the first failure of \<open>get\<close>. \<open>n\<close> is
  \<open>len(splitNames)\<close>, \<open>idx\<close> the index of the head of the names still to visit.
\<close>

fun List_loop ::
  "world \<Rightarrow> nat \<Rightarrow> nat \<Rightarrow> string list \<Rightarrow> Dysk list \<Rightarrow> event list
     \<Rightarrow> event list \<times> (failure + Dysk list)" where
  "List_loop w n idx [] dysks tr = (tr, Inr dysks)"
| "List_loop w n idx (name # names) dysks tr =
     (if int idx = int n - 1 then (tr, Inr dysks)
      else case get w name tr of
             (tr1, Inl f) \<Rightarrow> (tr1, Inl f)
           | (tr1, Inr d) \<Rightarrow> List_loop w n (idx + 1) names (dysks @ [post_get w d]) tr1)"

definition List_opened :: "world \<Rightarrow> event list \<Rightarrow> event list \<times> (failure + Dysk list)" where
  "List_opened w tr =
     (case bufferize ''-'' of
        Inl f \<Rightarrow> (tr, Inl f)
      | Inr buffer \<Rightarrow>
          (let tr1 = tr @ [Ioctl IOCTLISTDYYSKS buffer];
               (e, buffer) = reply_ioctl w tr1
           in if e \<noteq> 0 then (tr1, Inl (Error (Errno e)))
              else case parseResponse buffer of
                     Inl f \<Rightarrow> (tr1, Inl f)
                   | Inr res \<Rightarrow>
                       if is_error res then (tr1, Inl (Error (DriverMessage (response res))))
                       else (let splitNames = strings_Split (response res) NL
                             in List_loop w (length splitNames) 0 splitNames [] tr1)))"

definition List :: "world \<Rightarrow> event list \<Rightarrow> event list \<times> (failure + Dysk list)" where
  "List w tr =
     (let tr0 = tr @ [OpenDevice]
      in case reply_unit w tr0 of
           Some err \<Rightarrow> (tr0, Inl (Error err))
         | None \<Rightarrow>
             (case List_opened w tr0 of
                (tr1, r) \<Rightarrow> (tr1 @ [CloseDevice], r)))"

section \<open>Properties\<close>

subsection \<open>Helper facts on \<open>strings_Index\<close>\<close>

lemma strings_Index_absent: "c \<notin> set s \<Longrightarrow> strings_Index s c = -1"
  by (induction s) auto

lemma strings_Index_present:
  "c \<in> set s \<Longrightarrow> strings_Index s c = int (length (takeWhile (\<lambda>x. x \<noteq> c) s))"
  by (induction s) (auto simp: Let_def)

lemma length_takeWhile_less: "c \<in> set s \<Longrightarrow> length (takeWhile (\<lambda>x. x \<noteq> c) s) < length s"
  by (induction s) auto

lemma take_length_takeWhile: "take (length (takeWhile P s)) s = takeWhile P s"
  by (induction s) auto

lemma drop_Suc_length_takeWhile:
  "drop (Suc (length (takeWhile P s))) s = tl (dropWhile P s)"
  by (induction s) auto

subsection \<open>C8: the buffer invariant\<close>

text \<open>
  C8. For every input string \<open>s\<close> shorter than 2048 bytes, \<open>bufferize s\<close> returns (it
  does not panic) a buffer of exactly 2048 bytes whose first \<open>len(s)\<close> bytes are the
  bytes of \<open>s\<close> and whose remaining bytes are all zero.
\<close>

theorem bufferize_padded:
  assumes "length s < 2048"
  shows "\<exists>b. bufferize s = Inr b \<and> length b = 2048 \<and> take (length s) b = s
           \<and> (\<forall>i. length s \<le> i \<and> i < 2048 \<longrightarrow> b ! i = NUL)"
proof -
  let ?b = "s @ replicate (2048 - length s) NUL"
  have ret: "bufferize s = Inr ?b"
    using assms by (simp add: bufferize_def IOCTL_IN_OUT_MAX_def Let_def nat_diff_distrib')
  have len: "length ?b = 2048"
    using assms by simp
  have pre: "take (length s) ?b = s"
    by simp
  have pad: "\<forall>i. length s \<le> i \<and> i < 2048 \<longrightarrow> ?b ! i = NUL"
    by (auto simp: nth_append)
  from ret len pre pad show ?thesis
    by blast
qed

theorem bufferize_padded_witness:
  "length ''disk01'' < 2048 \<and>
   (\<exists>b. bufferize ''disk01'' = Inr b \<and> length b = 2048 \<and> take (length ''disk01'') b = ''disk01''
      \<and> (\<forall>i. length ''disk01'' \<le> i \<and> i < 2048 \<longrightarrow> b ! i = NUL))"
  using bufferize_padded [of "''disk01''"] by simp

subsection \<open>C9: the response parser is partial\<close>

text \<open>
  C9. For every buffer that contains a newline byte, \<open>parseResponse\<close> returns, with
  \<open>is_error\<close> true exactly when the text before the first newline equals \<open>ERR\<close> and the
  payload everything after that newline; for a buffer with no newline byte it panics with
  an out-of-range slice instead of returning a value.
\<close>

theorem parseResponse_partial:
  "parseResponse bytes =
     (if NL \<in> set bytes
      then Inr \<lparr>is_error = (takeWhile (\<lambda>x. x \<noteq> NL) bytes = ''ERR''),
                response = tl (dropWhile (\<lambda>x. x \<noteq> NL) bytes)\<rparr>
      else Inl (Panic SliceOutOfRange))"
proof (cases "NL \<in> set bytes")
  case True
  let ?k = "length (takeWhile (\<lambda>x. x \<noteq> NL) bytes)"
  have idx: "strings_Index bytes NL = int ?k"
    using True by (rule strings_Index_present)
  have lt: "?k < length bytes"
    using True by (rule length_takeWhile_less)
  have a: "slice_to bytes (int ?k) = Inr (takeWhile (\<lambda>x. x \<noteq> NL) bytes)"
    using lt by (simp add: slice_to_def take_length_takeWhile)
  have b: "slice_from bytes (int ?k + 1) = Inr (tl (dropWhile (\<lambda>x. x \<noteq> NL) bytes))"
    using lt by (simp add: slice_from_def nat_add_distrib drop_Suc_length_takeWhile)
  show ?thesis
    using True by (simp add: parseResponse_def Let_def idx a b)
next
  case False
  then have "strings_Index bytes NL = -1"
    by (rule strings_Index_absent)
  then show ?thesis
    using False by (simp add: parseResponse_def Let_def slice_to_def)
qed

theorem parseResponse_partial_witness:
  "parseResponse ''ERR\<newline>bad lease\<newline>'' = Inr \<lparr>is_error = True, response = ''bad lease\<newline>''\<rparr>
   \<and> parseResponse ''OK'' = Inl (Panic SliceOutOfRange)"
  using parseResponse_partial [of "''ERR\<newline>bad lease\<newline>''"] parseResponse_partial [of "''OK''"]
  by simp

end
